theory Spec2Isabelle
  imports Main
begin

section \<open>Data model (server/src/db/schema.ts)\<close>

text \<open>
  The five relations of the password manager. Every column of the schema is a field of
  the corresponding record; field names carry the table as a prefix because record
  fields share one name space. Row ids and foreign keys are JavaScript numbers that the
  handlers only compare for equality, so they are integers here (an id that is negative
  or unused simply matches no row). Timestamps are natural numbers. A nullable column
  is an \<open>option\<close>.
\<close>

type_synonym timestamp = nat

text \<open>
  Every id column is an \<open>integer\<close> of the database, 32 bits wide and signed. An id
  that arrives in a payload is any number the schema validation lets through; the
  database refuses a query whose parameter is outside the range of the column, and the
  handler rethrows that error. The handlers are modelled on ids within the range:
  \<open>int4 n\<close> says so of \<open>n\<close>, and the statements on a handler assume it of every id
  the handler passes to the database, except where the handler's answer is the same
  outside the range.
\<close>

definition int4 :: "int \<Rightarrow> bool" where
  "int4 n = (- 2147483648 \<le> n \<and> n \<le> 2147483647)"

datatype user_role = RoleAdmin | RoleUser

datatype item_type = Password | CreditCard | SecureNote | SoftwareLicense

text \<open>The enum \<open>vault_permission\<close>: \<open>'read'\<close>, \<open>'write'\<close>, \<open>'admin'\<close>.\<close>

datatype vault_permission = Read | Write | Admin

record user =
  user_id :: int
  user_email :: string
  user_full_name :: string
  user_role :: user_role
  user_password_hash :: string
  user_is_active :: bool
  user_created_at :: timestamp
  user_updated_at :: timestamp

record vault =
  vault_id :: int
  vault_name :: string
  vault_description :: "string option"
  vault_owner_id :: int
  vault_is_shared :: bool
  vault_created_at :: timestamp
  vault_updated_at :: timestamp

record category =
  cat_id :: int
  cat_name :: string
  cat_description :: "string option"
  cat_color :: "string option"
  cat_vault_id :: int
  cat_created_at :: timestamp
  cat_updated_at :: timestamp

record credential_item =
  item_id :: int
  item_title :: string
  item_type :: item_type
  item_vault_id :: int
  item_category_id :: "int option"
  item_website_url :: "string option"
  item_username :: "string option"
  item_password_encrypted :: "string option"
  item_notes_encrypted :: "string option"
  item_card_number_encrypted :: "string option"
  item_card_holder_name :: "string option"
  item_card_expiry_date :: "string option"
  item_card_cvv_encrypted :: "string option"
  item_license_key_encrypted :: "string option"
  item_license_email :: "string option"
  item_created_by :: int
  item_created_at :: timestamp
  item_updated_at :: timestamp

record vault_user_permission =
  perm_id :: int
  perm_vault_id :: int
  perm_user_id :: int
  perm_permission :: vault_permission
  perm_granted_by :: int
  perm_created_at :: timestamp

text \<open>
  The store. A table is the list of its rows in insertion order, which is the order a
  \<open>select\<close> without \<open>orderBy\<close> is taken to return them in (the handlers read
  \<open>rows[0]\<close>). Each \<open>serial\<close> primary key has its sequence: the value the next
  insert receives. A query with ids within the range of the columns always answers on
  this store, so the \<open>catch\<close> blocks of the handlers, which log and rethrow (or, in
  the permission helpers, answer \<open>false\<close>), only see the errors that the handlers
  throw themselves.
\<close>

record db =
  usersTable :: "user list"
  vaultsTable :: "vault list"
  categoriesTable :: "category list"
  credentialItemsTable :: "credential_item list"
  vaultUserPermissionsTable :: "vault_user_permission list"
  vaults_id_seq :: int
  categories_id_seq :: int
  credential_items_id_seq :: int
  vault_user_permissions_id_seq :: int

text \<open>
  Every \<open>throw new Error(...)\<close> of the handlers, by kind:
  \<^item> \<open>VaultNotFound\<close>: 'Vault not found';
  \<^item> \<open>InsufficientPermissions\<close>: every message that starts with 'Insufficient permissions';
  \<^item> \<open>TargetUserNotFound\<close>: 'Target user not found';
  \<^item> \<open>TargetUserInactive\<close>: 'Cannot grant permissions to inactive user';
  \<^item> \<open>DuplicatePermission\<close>: 'User already has permissions for this vault';
  \<^item> \<open>CategoryNotFound\<close>: 'Category not found';
  \<^item> \<open>VaultNotFoundOrForbidden\<close>: 'Vault not found or insufficient permissions';
  \<^item> \<open>CryptoError\<close>: whatever the crypto library throws.
\<close>

datatype error =
    VaultNotFound
  | InsufficientPermissions
  | TargetUserNotFound
  | TargetUserInactive
  | DuplicatePermission
  | CategoryNotFound
  | VaultNotFoundOrForbidden
  | CryptoError

text \<open>
  What \<open>getUserPermissionForVault\<close> returns when it returns a string: \<open>'owner'\<close>
  or the \<open>permission\<close> column of a grant row.
\<close>

datatype access_level = Owner | Granted vault_permission

section \<open>Access control (handlers/vault-permissions.ts, credential-items.ts, categories.ts)\<close>

definition getUserPermissionForVault :: "db \<Rightarrow> int \<Rightarrow> int \<Rightarrow> error + access_level option" where
  "getUserPermissionForVault s vaultId userId =
     (case filter (\<lambda>v. vault_id v = vaultId) (vaultsTable s) of
        [] \<Rightarrow> Inl VaultNotFound
      | vault0 # _ \<Rightarrow>
          if vault_owner_id vault0 = userId then Inr (Some Owner)
          else (case filter (\<lambda>p. perm_vault_id p = vaultId \<and> perm_user_id p = userId)
                       (vaultUserPermissionsTable s) of
                  [] \<Rightarrow> Inr None
                | p0 # _ \<Rightarrow> Inr (Some (Granted (perm_permission p0)))))"

text \<open>
  \<open>['read', 'write', 'admin'].includes(userPermission)\<close> and its siblings, on the three
  values the column can hold.
\<close>

fun permission_includes :: "vault_permission list \<Rightarrow> vault_permission \<Rightarrow> bool" where
  "permission_includes [] p = False"
| "permission_includes (q # qs) p = (q = p \<or> permission_includes qs p)"

text \<open>The helper of credential-items.ts.\<close>

definition checkVaultPermission :: "db \<Rightarrow> int \<Rightarrow> int \<Rightarrow> vault_permission \<Rightarrow> bool" where
  "checkVaultPermission s vaultId userId requiredPermission =
     (case filter (\<lambda>v. vault_id v = vaultId) (vaultsTable s) of
        [] \<Rightarrow> False
      | vault0 # _ \<Rightarrow>
          if vault_owner_id vault0 = userId then True
          else (case filter (\<lambda>p. perm_vault_id p = vaultId \<and> perm_user_id p = userId)
                       (vaultUserPermissionsTable s) of
                  [] \<Rightarrow> False
                | p0 # _ \<Rightarrow>
                    (case requiredPermission of
                       Read \<Rightarrow> permission_includes [Read, Write, Admin] (perm_permission p0)
                     | Write \<Rightarrow> permission_includes [Write, Admin] (perm_permission p0)
                     | Admin \<Rightarrow> perm_permission p0 = Admin)))"

text \<open>The helper of categories.ts: the same checks, each query with \<open>limit(1)\<close>.\<close>

definition checkVaultPermission_categories :: "db \<Rightarrow> int \<Rightarrow> int \<Rightarrow> vault_permission \<Rightarrow> bool" where
  "checkVaultPermission_categories s vaultId userId requiredPermission =
     (case take 1 (filter (\<lambda>v. vault_id v = vaultId) (vaultsTable s)) of
        [] \<Rightarrow> False
      | vault0 # _ \<Rightarrow>
          if vault_owner_id vault0 = userId then True
          else (case take 1 (filter (\<lambda>p. perm_vault_id p = vaultId \<and> perm_user_id p = userId)
                       (vaultUserPermissionsTable s)) of
                  [] \<Rightarrow> False
                | p0 # _ \<Rightarrow>
                    (case requiredPermission of
                       Read \<Rightarrow> permission_includes [Read, Write, Admin] (perm_permission p0)
                     | Write \<Rightarrow> permission_includes [Write, Admin] (perm_permission p0)
                     | Admin \<Rightarrow> perm_permission p0 = Admin)))"

section \<open>Field encryption (handlers/credential-items.ts)\<close>

text \<open>
  A \<open>Buffer\<close> is a list of bytes; \<open>char\<close> is the 8-bit byte. A JavaScript string
  is modelled by its UTF-8 bytes, so \<open>'utf8'\<close> conversion between a string and a buffer
  is the identity. This represents the well-formed strings, those without a lone
  surrogate: the code's conversion to UTF-8 replaces a lone surrogate by U+FFFD, so a
  string that has one is not told apart from the string with U+FFFD in its place.
\<close>

type_synonym buffer = "char list"

text \<open>
  \<open>s.length\<close> counts UTF-16 code units: one for each character of one to three
  bytes, two for each character of four bytes (lead byte \<open>0xF0\<close> or above), none for
  a continuation byte.
\<close>

definition js_length :: "string \<Rightarrow> nat" where
  "js_length s =
     sum_list (map (\<lambda>c. if 128 \<le> (of_char c :: nat) \<and> (of_char c :: nat) < 192 then 0
                          else if 240 \<le> (of_char c :: nat) then 2 else (1::nat)) s)"

text \<open>
  The collaborators of \<open>encrypt\<close> and \<open>decrypt\<close> that are not code of the repository:
  the key and Node's \<open>aes-256-cbc\<close>. The key is the buffer that both functions pass
  to the library, \<open>Buffer.from(ENCRYPTION_KEY.slice(0, 32))\<close>: the first 32 UTF-16
  code units of the configured key (\<open>process.env['ENCRYPTION_KEY']\<close>, or the built-in
  default), encoded in UTF-8; it is the field \<open>key_buffer\<close>, of whatever length that
  comes to. \<open>cipheriv key iv text\<close> is the bytes that
  \<open>createCipheriv(ALGORITHM, key, iv)\<close> makes of the string \<open>text\<close> with
  \<open>update(text, 'utf8', ...)\<close> and \<open>final\<close>. \<open>decipheriv key iv data\<close> is the
  string that \<open>createDecipheriv(ALGORITHM, key, iv)\<close> makes of the bytes \<open>data\<close>
  with \<open>update(..., 'utf8')\<close> and \<open>final('utf8')\<close>, the conversion of the deciphered
  bytes to a string included. \<open>None\<close> stands for a thrown exception (wrong key or IV
  length, bad padding).
\<close>

record crypto =
  key_buffer :: buffer
  cipheriv :: "buffer \<Rightarrow> buffer \<Rightarrow> string \<Rightarrow> buffer option"
  decipheriv :: "buffer \<Rightarrow> buffer \<Rightarrow> buffer \<Rightarrow> string option"

text \<open>\<open>buf.toString('hex')\<close>: two lower-case digits for each byte.\<close>

definition hex_digit :: "nat \<Rightarrow> char" where
  "hex_digit n = ''0123456789abcdef'' ! n"

fun to_hex :: "buffer \<Rightarrow> string" where
  "to_hex [] = []"
| "to_hex (b # bs) =
     hex_digit ((of_char b :: nat) div 16) # hex_digit ((of_char b :: nat) mod 16) # to_hex bs"

text \<open>
  Reading hex (\<open>Buffer.from(s, 'hex')\<close> and the \<open>'hex'\<close> input encoding of
  \<open>decipher.update\<close>): pairs of digits of either case, up to the first pair that is not
  two hex digits.
\<close>

definition hex_value :: "char \<Rightarrow> nat option" where
  "hex_value c =
     (let n = (of_char c :: nat) in
      if 48 \<le> n \<and> n \<le> 57 then Some (n - 48)
      else if 97 \<le> n \<and> n \<le> 102 then Some (n - 87)
      else if 65 \<le> n \<and> n \<le> 70 then Some (n - 55)
      else None)"

fun from_hex :: "string \<Rightarrow> buffer" where
  "from_hex (a # b # rest) =
     (case hex_value a of
        None \<Rightarrow> []
      | Some h \<Rightarrow>
          (case hex_value b of
             None \<Rightarrow> []
           | Some l \<Rightarrow> char_of (16 * h + l) # from_hex rest))"
| "from_hex _ = []"

text \<open>\<open>s.split(sep)\<close> for a one-character separator.\<close>

fun split :: "char \<Rightarrow> string \<Rightarrow> string list" where
  "split sep [] = [[]]"
| "split sep (c # cs) =
     (if c = sep then [] # split sep cs
      else (case split sep cs of
              [] \<Rightarrow> [[c]]
            | part # parts \<Rightarrow> (c # part) # parts))"

text \<open>
  \<open>encrypt\<close>: the IV that \<open>crypto.randomBytes(16)\<close> returns to this call is the
  argument \<open>iv\<close>. Two calls are two applications, each with its own draw; nothing
  in the function makes the two draws differ.
\<close>

definition encrypt :: "crypto \<Rightarrow> buffer \<Rightarrow> string \<Rightarrow> error + string" where
  "encrypt C iv text =
     (case cipheriv C (key_buffer C) iv text of
        None \<Rightarrow> Inl CryptoError
      | Some encrypted \<Rightarrow> Inr (to_hex iv @ '':'' @ to_hex encrypted))"

text \<open>
  \<open>decrypt\<close>: \<open>parts[1]\<close> is \<open>undefined\<close> when the stored text has no colon, and
  \<open>decipher.update\<close> throws on it; it also throws on a hex string of odd length.
  The IV goes through \<open>Buffer.from\<close>, which does not throw.
\<close>

definition decrypt :: "crypto \<Rightarrow> string \<Rightarrow> error + string" where
  "decrypt C encryptedText =
     (case split CHR '':'' encryptedText of
        parts0 # parts1 # _ \<Rightarrow>
          if odd (js_length parts1) then Inl CryptoError
          else
            (case decipheriv C (key_buffer C) (from_hex parts0) (from_hex parts1) of
               None \<Rightarrow> Inl CryptoError
             | Some decrypted \<Rightarrow> Inr decrypted)
      | _ \<Rightarrow> Inl CryptoError)"

text \<open>Sequencing of calls that may throw.\<close>

definition and_then :: "error + 'a \<Rightarrow> ('a \<Rightarrow> error + 'b) \<Rightarrow> error + 'b" where
  "and_then r f = (case r of Inl e \<Rightarrow> Inl e | Inr x \<Rightarrow> f x)"

text \<open>
  \<open>input.password ? encrypt(input.password) : null\<close>: \<open>null\<close> and the empty string are
  falsy.
\<close>

definition encrypt_field :: "crypto \<Rightarrow> buffer \<Rightarrow> string option \<Rightarrow> error + string option" where
  "encrypt_field C iv field =
     (case field of
        None \<Rightarrow> Inr None
      | Some text \<Rightarrow>
          if text = [] then Inr None
          else and_then (encrypt C iv text) (\<lambda>stored. Inr (Some stored)))"

text \<open>\<open>item.password_encrypted ? decrypt(item.password_encrypted) : null\<close>\<close>

definition decrypt_field :: "crypto \<Rightarrow> string option \<Rightarrow> error + string option" where
  "decrypt_field C field =
     (case field of
        None \<Rightarrow> Inr None
      | Some stored \<Rightarrow>
          if stored = [] then Inr None
          else and_then (decrypt C stored) (\<lambda>text. Inr (Some text)))"

text \<open>
  The object every item handler returns: \<open>{...item, password_encrypted: ..., ...}\<close>,
  the five sensitive fields decrypted in this order.
\<close>

definition decrypt_item :: "crypto \<Rightarrow> credential_item \<Rightarrow> error + credential_item" where
  "decrypt_item C item =
     and_then (decrypt_field C (item_password_encrypted item)) (\<lambda>password.
     and_then (decrypt_field C (item_notes_encrypted item)) (\<lambda>notes.
     and_then (decrypt_field C (item_card_number_encrypted item)) (\<lambda>card_number.
     and_then (decrypt_field C (item_card_cvv_encrypted item)) (\<lambda>card_cvv.
     and_then (decrypt_field C (item_license_key_encrypted item)) (\<lambda>license_key.
       Inr (item\<lparr>item_password_encrypted := password,
                 item_notes_encrypted := notes,
                 item_card_number_encrypted := card_number,
                 item_card_cvv_encrypted := card_cvv,
                 item_license_key_encrypted := license_key\<rparr>))))))"

text \<open>\<open>items.map(item => ({...}))\<close>\<close>

fun decrypt_items :: "crypto \<Rightarrow> credential_item list \<Rightarrow> error + credential_item list" where
  "decrypt_items C [] = Inr []"
| "decrypt_items C (item # items) =
     and_then (decrypt_item C item) (\<lambda>d.
     and_then (decrypt_items C items) (\<lambda>ds. Inr (d # ds)))"

section \<open>Credential items (handlers/credential-items.ts)\<close>

record create_credential_item_input =
  cci_title :: string
  cci_type :: item_type
  cci_vault_id :: int
  cci_category_id :: "int option"
  cci_website_url :: "string option"
  cci_username :: "string option"
  cci_password :: "string option"
  cci_notes :: "string option"
  cci_card_number :: "string option"
  cci_card_holder_name :: "string option"
  cci_card_expiry_date :: "string option"
  cci_card_cvv :: "string option"
  cci_license_key :: "string option"
  cci_license_email :: "string option"

text \<open>
  One call of \<open>createCredentialItem\<close> draws an IV for each sensitive field it encrypts;
  the draws are the fields of this record.
\<close>

record item_ivs =
  iv_password :: buffer
  iv_notes :: buffer
  iv_card_number :: buffer
  iv_card_cvv :: buffer
  iv_license_key :: buffer

text \<open>
  A handler that writes returns its outcome together with the store it leaves behind.
  \<open>now\<close> is the time \<open>defaultNow()\<close> stamps on an inserted row.
\<close>

definition createCredentialItem ::
  "crypto \<Rightarrow> item_ivs \<Rightarrow> timestamp \<Rightarrow> db \<Rightarrow> create_credential_item_input \<Rightarrow> int
     \<Rightarrow> (error + credential_item) \<times> db" where
  "createCredentialItem C ivs now s input userId =
     (if \<not> checkVaultPermission s (cci_vault_id input) userId Write
      then (Inl InsufficientPermissions, s)
      else
        (case and_then (encrypt_field C (iv_password ivs) (cci_password input)) (\<lambda>password.
              and_then (encrypt_field C (iv_notes ivs) (cci_notes input)) (\<lambda>notes.
              and_then (encrypt_field C (iv_card_number ivs) (cci_card_number input)) (\<lambda>card_number.
              and_then (encrypt_field C (iv_card_cvv ivs) (cci_card_cvv input)) (\<lambda>card_cvv.
              and_then (encrypt_field C (iv_license_key ivs) (cci_license_key input)) (\<lambda>license_key.
                Inr \<lparr>item_id = credential_items_id_seq s,
                     item_title = cci_title input,
                     item_type = cci_type input,
                     item_vault_id = cci_vault_id input,
                     item_category_id = cci_category_id input,
                     item_website_url = cci_website_url input,
                     item_username = cci_username input,
                     item_password_encrypted = password,
                     item_notes_encrypted = notes,
                     item_card_number_encrypted = card_number,
                     item_card_holder_name = cci_card_holder_name input,
                     item_card_expiry_date = cci_card_expiry_date input,
                     item_card_cvv_encrypted = card_cvv,
                     item_license_key_encrypted = license_key,
                     item_license_email = cci_license_email input,
                     item_created_by = userId,
                     item_created_at = now,
                     item_updated_at = now\<rparr>))))) of
           Inl e \<Rightarrow> (Inl e, s)
         | Inr item \<Rightarrow>
             (decrypt_item C item,
              s\<lparr>credentialItemsTable := credentialItemsTable s @ [item],
                credential_items_id_seq := credential_items_id_seq s + 1\<rparr>)))"

definition getItemsByVault :: "crypto \<Rightarrow> db \<Rightarrow> int \<Rightarrow> int \<Rightarrow> error + credential_item list" where
  "getItemsByVault C s vaultId userId =
     (if \<not> checkVaultPermission s vaultId userId Read then Inl InsufficientPermissions
      else decrypt_items C (filter (\<lambda>i. item_vault_id i = vaultId) (credentialItemsTable s)))"

text \<open>\<open>getItemById\<close> returns \<open>null\<close> (here \<open>Inr None\<close>) when no row has the id.\<close>

definition getItemById :: "crypto \<Rightarrow> db \<Rightarrow> int \<Rightarrow> int \<Rightarrow> error + credential_item option" where
  "getItemById C s id0 userId =
     (case filter (\<lambda>i. item_id i = id0) (credentialItemsTable s) of
        [] \<Rightarrow> Inr None
      | item # _ \<Rightarrow>
          if \<not> checkVaultPermission s (item_vault_id item) userId Read
          then Inl InsufficientPermissions
          else and_then (decrypt_item C item) (\<lambda>d. Inr (Some d)))"

text \<open>
  The search filter. An absent key is \<open>None\<close>; \<open>category_id\<close> may be present and
  \<open>null\<close>, which is \<open>Some None\<close>.
\<close>

record search_items_input =
  si_vault_id :: "int option"
  si_category_id :: "int option option"
  si_type :: "item_type option"
  si_query :: "string option"

text \<open>
  \<open>String.prototype.trim\<close> removes white space and line terminators from both ends.
  These are the code points U+0009 to U+000D, U+0020, U+00A0, U+1680, U+2000 to U+200A,
  U+2028, U+2029, U+202F, U+205F, U+3000 and U+FEFF; \<open>white_space\<close> lists their UTF-8
  encodings.
\<close>

definition white_space :: "string list" where
  "white_space =
     map (map char_of)
       [[9::nat], [10], [11], [12], [13], [32],
        [194, 160],
        [225, 154, 128],
        [226, 128, 128], [226, 128, 129], [226, 128, 130], [226, 128, 131], [226, 128, 132],
        [226, 128, 133], [226, 128, 134], [226, 128, 135], [226, 128, 136], [226, 128, 137],
        [226, 128, 138],
        [226, 128, 168], [226, 128, 169], [226, 128, 175],
        [226, 129, 159],
        [227, 128, 128],
        [239, 187, 191]]"

text \<open>
  The number of bytes of the sequence of \<open>ws\<close> that \<open>s\<close> starts with, or 0 when it
  starts with none.
\<close>

definition starts_with :: "string list \<Rightarrow> string \<Rightarrow> nat" where
  "starts_with ws s =
     (case find (\<lambda>w. w \<noteq> [] \<and> take (length w) s = w) ws of
        None \<Rightarrow> 0
      | Some w \<Rightarrow> length w)"

function strip_start :: "string list \<Rightarrow> string \<Rightarrow> string" where
  "strip_start ws s =
     (if starts_with ws s = 0 then s else strip_start ws (drop (starts_with ws s) s))"
  by pat_completeness auto
termination
proof (relation "measure (\<lambda>(ws, s). length s)")
  show "wf (measure (\<lambda>(ws, s). length s))"
    by simp
next
  fix ws :: "string list" and s :: string
  assume some: "starts_with ws s \<noteq> 0"
  then obtain w where "find (\<lambda>w. w \<noteq> [] \<and> take (length w) s = w) ws = Some w"
    by (auto simp: starts_with_def split: option.splits)
  then have "w \<noteq> []" and "take (length w) s = w"
    by (auto simp: find_Some_iff)
  then have "s \<noteq> []"
    by auto
  with some show "((ws, drop (starts_with ws s) s), (ws, s)) \<in> measure (\<lambda>(ws, s). length s)"
    by simp
qed

declare strip_start.simps [simp del]

text \<open>
  The end of a string is stripped as the start of its reversal. On the UTF-8 bytes of
  a well-formed string this removes whole characters only: the first byte of each
  sequence of \<open>white_space\<close> is never a continuation byte.
\<close>

definition trim :: "string \<Rightarrow> string" where
  "trim s = rev (strip_start (map rev white_space) (rev (strip_start white_space s)))"

text \<open>
  The conditions that \<open>searchItems\<close> pushes after the vault condition, in the order of
  the source. A condition is a predicate on a row; SQL's \<open>eq\<close> on a \<open>NULL\<close> column
  selects nothing. \<open>ilike\<close> is the database's operator (column value first, pattern
  second) and is a parameter. The database takes as text any string without the
  character U+0000 and refuses a query whose pattern has one; the statements on
  \<open>searchItems\<close> assume a query string without it.
\<close>

definition filter_conditions ::
  "(string \<Rightarrow> string \<Rightarrow> bool) \<Rightarrow> search_items_input \<Rightarrow> (credential_item \<Rightarrow> bool) list" where
  "filter_conditions ilike input =
     (case si_category_id input of
        None \<Rightarrow> []
      | Some None \<Rightarrow> [\<lambda>i. item_category_id i = None]
      | Some (Some c) \<Rightarrow> [\<lambda>i. item_category_id i = Some c])
     @ (case si_type input of
          None \<Rightarrow> []
        | Some t \<Rightarrow> [\<lambda>i. item_type i = t])
     @ (case si_query input of
          None \<Rightarrow> []
        | Some q \<Rightarrow>
            if trim q \<noteq> [] then [\<lambda>i. ilike (item_title i) (''%'' @ trim q @ ''%'')] else [])"

text \<open>The query and the decryption at the end of \<open>searchItems\<close>.\<close>

definition run_search ::
  "crypto \<Rightarrow> db \<Rightarrow> (credential_item \<Rightarrow> bool) list \<Rightarrow> error + credential_item list" where
  "run_search C s conditions =
     decrypt_items C
       (if length conditions > 0
        then filter (\<lambda>i. list_all (\<lambda>c. c i) conditions) (credentialItemsTable s)
        else credentialItemsTable s)"

definition searchItems ::
  "crypto \<Rightarrow> (string \<Rightarrow> string \<Rightarrow> bool) \<Rightarrow> db \<Rightarrow> search_items_input \<Rightarrow> int
     \<Rightarrow> error + credential_item list" where
  "searchItems C ilike s input userId =
     (case si_vault_id input of
        Some vaultId \<Rightarrow>
          if \<not> checkVaultPermission s vaultId userId Read then Inl InsufficientPermissions
          else run_search C s ((\<lambda>i. item_vault_id i = vaultId) # filter_conditions ilike input)
      | None \<Rightarrow>
          (case map vault_id (filter (\<lambda>v. vault_owner_id v = userId) (vaultsTable s)) of
             [] \<Rightarrow> Inr []
           | vaultId0 # _ \<Rightarrow>
               run_search C s ((\<lambda>i. item_vault_id i = vaultId0) # filter_conditions ilike input)))"

section \<open>Categories (handlers/categories.ts)\<close>

record create_category_input =
  cc_name :: string
  cc_description :: "string option"
  cc_color :: "string option"
  cc_vault_id :: int

definition createCategory ::
  "timestamp \<Rightarrow> db \<Rightarrow> create_category_input \<Rightarrow> int \<Rightarrow> (error + category) \<times> db" where
  "createCategory now s input userId =
     (if \<not> checkVaultPermission_categories s (cc_vault_id input) userId Write
      then (Inl InsufficientPermissions, s)
      else
        (let row = \<lparr>cat_id = categories_id_seq s,
                    cat_name = cc_name input,
                    cat_description = cc_description input,
                    cat_color = cc_color input,
                    cat_vault_id = cc_vault_id input,
                    cat_created_at = now,
                    cat_updated_at = now\<rparr>
         in (Inr row,
             s\<lparr>categoriesTable := categoriesTable s @ [row],
               categories_id_seq := categories_id_seq s + 1\<rparr>)))"

text \<open>
  \<open>getCategoriesByVault\<close> leaves the order to the database (\<open>orderBy(asc(name))\<close>);
  the sort is a parameter.
\<close>

definition getCategoriesByVault ::
  "(category list \<Rightarrow> category list) \<Rightarrow> db \<Rightarrow> int \<Rightarrow> int \<Rightarrow> error + category list" where
  "getCategoriesByVault order_by_name s vaultId userId =
     (if \<not> checkVaultPermission_categories s vaultId userId Read then Inl InsufficientPermissions
      else Inr (order_by_name (filter (\<lambda>c. cat_vault_id c = vaultId) (categoriesTable s))))"

definition deleteCategory :: "db \<Rightarrow> int \<Rightarrow> int \<Rightarrow> (error + bool) \<times> db" where
  "deleteCategory s id0 userId =
     (case take 1 (filter (\<lambda>c. cat_id c = id0) (categoriesTable s)) of
        [] \<Rightarrow> (Inl CategoryNotFound, s)
      | category0 # _ \<Rightarrow>
          if \<not> checkVaultPermission_categories s (cat_vault_id category0) userId Write
          then (Inl InsufficientPermissions, s)
          else
            (Inr True,
             s\<lparr>credentialItemsTable :=
                  map (\<lambda>i. if item_category_id i = Some id0 then i\<lparr>item_category_id := None\<rparr> else i)
                      (credentialItemsTable s),
               categoriesTable := filter (\<lambda>c. cat_id c \<noteq> id0) (categoriesTable s)\<rparr>))"

section \<open>Vaults (handlers/vaults.ts, the second file under src/server/src/handlers/categories.ts)\<close>






section \<open>Grants (handlers/vault-permissions.ts)\<close>

record create_vault_permission_input =
  cvp_vault_id :: int
  cvp_user_id :: int
  cvp_permission :: vault_permission

definition createVaultPermission ::
  "timestamp \<Rightarrow> db \<Rightarrow> create_vault_permission_input \<Rightarrow> int
     \<Rightarrow> (error + vault_user_permission) \<times> db" where
  "createVaultPermission now s input grantedByUserId =
     (case getUserPermissionForVault s (cvp_vault_id input) grantedByUserId of
        Inl e \<Rightarrow> (Inl e, s)
      | Inr grantingUserPermission \<Rightarrow>
          if grantingUserPermission \<noteq> Some (Granted Admin) \<and> grantingUserPermission \<noteq> Some Owner
          then (Inl InsufficientPermissions, s)
          else
            (case filter (\<lambda>u. user_id u = cvp_user_id input) (usersTable s) of
               [] \<Rightarrow> (Inl TargetUserNotFound, s)
             | targetUser0 # _ \<Rightarrow>
                 if \<not> user_is_active targetUser0 then (Inl TargetUserInactive, s)
                 else if length (filter (\<lambda>p. perm_vault_id p = cvp_vault_id input
                                              \<and> perm_user_id p = cvp_user_id input)
                                   (vaultUserPermissionsTable s)) > 0
                 then (Inl DuplicatePermission, s)
                 else
                   (let row = \<lparr>perm_id = vault_user_permissions_id_seq s,
                               perm_vault_id = cvp_vault_id input,
                               perm_user_id = cvp_user_id input,
                               perm_permission = cvp_permission input,
                               perm_granted_by = grantedByUserId,
                               perm_created_at = now\<rparr>
                    in (Inr row,
                        s\<lparr>vaultUserPermissionsTable := vaultUserPermissionsTable s @ [row],
                          vault_user_permissions_id_seq :=
                            vault_user_permissions_id_seq s + 1\<rparr>))))"


section \<open>Vocabulary of the specification\<close>

text \<open>
  The order \<open>owner > admin > write > read > none\<close> of the effective permission, and
  the level an operation requires, as ranks.
\<close>

fun level_rank :: "access_level option \<Rightarrow> nat" where
  "level_rank None = 0"
| "level_rank (Some (Granted Read)) = 1"
| "level_rank (Some (Granted Write)) = 2"
| "level_rank (Some (Granted Admin)) = 3"
| "level_rank (Some Owner) = 4"

fun required_rank :: "vault_permission \<Rightarrow> nat" where
  "required_rank Read = 1"
| "required_rank Write = 2"
| "required_rank Admin = 3"

text \<open>
  "The caller holds \<open>required\<close> or better on the vault": the vault exists and the
  effective permission that \<open>getUserPermissionForVault\<close> reports is at least the
  required level.
\<close>

definition holds_at_least :: "db \<Rightarrow> int \<Rightarrow> int \<Rightarrow> vault_permission \<Rightarrow> bool" where
  "holds_at_least s vaultId userId required =
     (case getUserPermissionForVault s vaultId userId of
        Inl _ \<Rightarrow> False
      | Inr level \<Rightarrow> required_rank required \<le> level_rank level)"

text \<open>
  "The item satisfies the category, type and title-query conditions" of a search filter:
  each condition that the filter carries holds of the row. A query that is empty after
  trimming is no condition.
\<close>

definition matches_filter ::
  "(string \<Rightarrow> string \<Rightarrow> bool) \<Rightarrow> search_items_input \<Rightarrow> credential_item \<Rightarrow> bool" where
  "matches_filter ilike input i =
     ((case si_category_id input of None \<Rightarrow> True | Some c \<Rightarrow> item_category_id i = c)
      \<and> (case si_type input of None \<Rightarrow> True | Some t \<Rightarrow> item_type i = t)
      \<and> (case si_query input of
            None \<Rightarrow> True
          | Some q \<Rightarrow> trim q = [] \<or> ilike (item_title i) (''%'' @ trim q @ ''%'')))"




text \<open>
  "The stored sensitive field is replaced by its decrypted plaintext": a stored value
  that is \<open>null\<close> or empty reads as \<open>null\<close>, any other as what \<open>decrypt\<close> returns for it.
\<close>

definition is_plaintext_of :: "crypto \<Rightarrow> string option \<Rightarrow> string option \<Rightarrow> bool" where
  "is_plaintext_of C returned stored =
     (case stored of
        None \<Rightarrow> returned = None
      | Some t \<Rightarrow>
          if t = [] then returned = None
          else (case returned of None \<Rightarrow> False | Some plain \<Rightarrow> decrypt C t = Inr plain))"

text \<open>
  "The stored field can be decrypted": \<open>decrypt\<close> does not throw on it.
\<close>

definition decryptable :: "crypto \<Rightarrow> string option \<Rightarrow> bool" where
  "decryptable C stored =
     (case stored of
        None \<Rightarrow> True
      | Some t \<Rightarrow> if t = [] then True else (case decrypt C t of Inl _ \<Rightarrow> False | Inr _ \<Rightarrow> True))"

definition item_decryptable :: "crypto \<Rightarrow> credential_item \<Rightarrow> bool" where
  "item_decryptable C item =
     (decryptable C (item_password_encrypted item)
      \<and> decryptable C (item_notes_encrypted item)
      \<and> decryptable C (item_card_number_encrypted item)
      \<and> decryptable C (item_card_cvv_encrypted item)
      \<and> decryptable C (item_license_key_encrypted item))"

text \<open>
  "\<open>returned\<close> is the stored item with each sensitive field (password, notes, card
  number, CVV, license key) replaced by its decrypted plaintext": the five fields are
  the plaintexts of the stored ones and every other field is as stored.
\<close>

definition is_decrypted_item :: "crypto \<Rightarrow> credential_item \<Rightarrow> credential_item \<Rightarrow> bool" where
  "is_decrypted_item C returned stored =
     (returned = stored\<lparr>item_password_encrypted := item_password_encrypted returned,
                        item_notes_encrypted := item_notes_encrypted returned,
                        item_card_number_encrypted := item_card_number_encrypted returned,
                        item_card_cvv_encrypted := item_card_cvv_encrypted returned,
                        item_license_key_encrypted := item_license_key_encrypted returned\<rparr>
      \<and> is_plaintext_of C (item_password_encrypted returned) (item_password_encrypted stored)
      \<and> is_plaintext_of C (item_notes_encrypted returned) (item_notes_encrypted stored)
      \<and> is_plaintext_of C (item_card_number_encrypted returned) (item_card_number_encrypted stored)
      \<and> is_plaintext_of C (item_card_cvv_encrypted returned) (item_card_cvv_encrypted stored)
      \<and> is_plaintext_of C (item_license_key_encrypted returned) (item_license_key_encrypted stored))"

section \<open>Sample data\<close>

text \<open>
  A stand-in for the crypto library, to run the model on concrete inputs: it accepts a
  32-byte key and a 16-byte IV and reverses its input. It is not AES; it only has the
  one property of the library that the handlers rely on, that deciphering undoes
  enciphering under the same key and IV.
\<close>

definition sample_crypto :: crypto where
  "sample_crypto =
     \<lparr>key_buffer = ''your-32-character-key-here-12345'',
      cipheriv = (\<lambda>key iv text. if length key = 32 \<and> length iv = 16 then Some (rev text) else None),
      decipheriv = (\<lambda>key iv enc. if length key = 32 \<and> length iv = 16 then Some (rev enc) else None)\<rparr>"

text \<open>
  A stand-in for the database's \<open>ilike\<close>: it matches only the pattern that is the
  title itself between two percent signs.
\<close>

definition sample_ilike :: "string \<Rightarrow> string \<Rightarrow> bool" where
  "sample_ilike title pattern = (pattern = ''%'' @ title @ ''%'')"

definition no_filter :: search_items_input where
  "no_filter = \<lparr>si_vault_id = None, si_category_id = None, si_type = None, si_query = None\<rparr>"

definition sample_iv :: "char \<Rightarrow> buffer" where
  "sample_iv c = replicate 16 c"

definition empty_db :: db where
  "empty_db =
     \<lparr>usersTable = [], vaultsTable = [], categoriesTable = [], credentialItemsTable = [],
      vaultUserPermissionsTable = [],
      vaults_id_seq = 1, categories_id_seq = 1, credential_items_id_seq = 1,
      vault_user_permissions_id_seq = 1\<rparr>"


definition sample_user :: "int \<Rightarrow> bool \<Rightarrow> user" where
  "sample_user n active =
     \<lparr>user_id = n, user_email = ''u@example.org'', user_full_name = ''U'', user_role = RoleUser,
      user_password_hash = ''h'', user_is_active = active,
      user_created_at = 0, user_updated_at = 0\<rparr>"

definition sample_vault :: "int \<Rightarrow> int \<Rightarrow> vault" where
  "sample_vault n ownerId =
     \<lparr>vault_id = n, vault_name = ''V'', vault_description = None, vault_owner_id = ownerId,
      vault_is_shared = True, vault_created_at = 0, vault_updated_at = 0\<rparr>"

definition sample_category :: "int \<Rightarrow> int \<Rightarrow> category" where
  "sample_category n vaultId =
     \<lparr>cat_id = n, cat_name = ''Work'', cat_description = None, cat_color = None,
      cat_vault_id = vaultId, cat_created_at = 0, cat_updated_at = 0\<rparr>"

definition sample_item :: "int \<Rightarrow> int \<Rightarrow> int option \<Rightarrow> string option \<Rightarrow> credential_item" where
  "sample_item n vaultId categoryId password =
     \<lparr>item_id = n, item_title = ''Mail'', item_type = Password, item_vault_id = vaultId,
      item_category_id = categoryId, item_website_url = None, item_username = Some ''me'',
      item_password_encrypted = password, item_notes_encrypted = None,
      item_card_number_encrypted = None, item_card_holder_name = None,
      item_card_expiry_date = None, item_card_cvv_encrypted = None,
      item_license_key_encrypted = None, item_license_email = None,
      item_created_by = 1, item_created_at = 0, item_updated_at = 0\<rparr>"

definition sample_grant :: "int \<Rightarrow> int \<Rightarrow> int \<Rightarrow> vault_permission \<Rightarrow> vault_user_permission" where
  "sample_grant n vaultId userId permission =
     \<lparr>perm_id = n, perm_vault_id = vaultId, perm_user_id = userId, perm_permission = permission,
      perm_granted_by = 1, perm_created_at = 0\<rparr>"

text \<open>
  User 1 owns vaults 1 and 2; user 2 holds an admin grant and user 4 a read grant on
  vault 1; user 3 is deactivated; user 5 has no grant. Item 1 (vault 1, category 1) stores the password
  \<open>pw\<close> as \<open>sample_crypto\<close> encrypts it under the all-zero IV; item 2 is in vault 2.
\<close>

definition sample_db :: db where
  "sample_db =
     \<lparr>usersTable = [sample_user 1 True, sample_user 2 True, sample_user 3 False, sample_user 4 True,
                    sample_user 5 True],
      vaultsTable = [sample_vault 1 1, sample_vault 2 1],
      categoriesTable = [sample_category 1 1],
      credentialItemsTable =
        [sample_item 1 1 (Some 1) (Some ''00000000000000000000000000000000:7770''),
         sample_item 2 2 None None],
      vaultUserPermissionsTable = [sample_grant 1 1 2 Admin, sample_grant 2 1 4 Read],
      vaults_id_seq = 3, categories_id_seq = 2, credential_items_id_seq = 3,
      vault_user_permissions_id_seq = 3\<rparr>"

section \<open>Lemmas on tables\<close>

lemma filter_key_unique:
  "distinct (map f xs) \<Longrightarrow> x \<in> set xs \<Longrightarrow> filter (\<lambda>y. f y = f x) xs = [x]"
proof (induction xs)
  case Nil
  then show ?case by simp
next
  case (Cons a xs)
  show ?case
  proof (cases "a = x")
    case True
    with Cons.prems have "f x \<notin> f ` set xs" by simp
    then have "\<forall>y \<in> set xs. f y \<noteq> f x" by (metis imageI)
    then have "filter (\<lambda>y. f y = f x) xs = []"
      by (simp add: filter_empty_conv)
    with True show ?thesis by simp
  next
    case False
    with Cons.prems have in_xs: "x \<in> set xs" by simp
    with Cons.prems have "f a \<noteq> f x" by (metis distinct.simps(2) imageI list.simps(9) set_map)
    moreover from Cons.IH Cons.prems in_xs have "filter (\<lambda>y. f y = f x) xs = [x]" by simp
    ultimately show ?thesis by simp
  qed
qed

lemma filter_key_absent:
  "k \<notin> f ` set xs \<Longrightarrow> filter (\<lambda>y. f y = k) xs = []"
  by (induction xs) auto

section \<open>The permission helpers against the effective permission\<close>

lemma checkVaultPermission_holds:
  "checkVaultPermission s vaultId userId required = holds_at_least s vaultId userId required"
proof (cases "filter (\<lambda>v. vault_id v = vaultId) (vaultsTable s)")
  case Nil
  then show ?thesis
    by (simp add: checkVaultPermission_def holds_at_least_def getUserPermissionForVault_def)
next
  case vs: (Cons vault0 rest)
  show ?thesis
  proof (cases "vault_owner_id vault0 = userId")
    case True
    with vs show ?thesis
      by (cases required)
         (simp_all add: checkVaultPermission_def holds_at_least_def getUserPermissionForVault_def)
  next
    case notowner: False
    show ?thesis
    proof (cases "filter (\<lambda>p. perm_vault_id p = vaultId \<and> perm_user_id p = userId)
                    (vaultUserPermissionsTable s)")
      case Nil
      with vs notowner show ?thesis
        by (cases required)
           (simp_all add: checkVaultPermission_def holds_at_least_def getUserPermissionForVault_def)
    next
      case (Cons p0 ps)
      with vs notowner show ?thesis
        by (cases required; cases "perm_permission p0")
           (simp_all add: checkVaultPermission_def holds_at_least_def getUserPermissionForVault_def)
    qed
  qed
qed

lemma take_1_case:
  "(case take 1 xs of [] \<Rightarrow> a | x # _ \<Rightarrow> f x) = (case xs of [] \<Rightarrow> a | x # _ \<Rightarrow> f x)"
  by (cases xs) simp_all

lemma checkVaultPermission_categories_eq:
  "checkVaultPermission_categories s vaultId userId required
     = checkVaultPermission s vaultId userId required"
  unfolding checkVaultPermission_categories_def checkVaultPermission_def take_1_case ..

lemma holds_at_least_levels:
  "holds_at_least s vaultId userId required
     = (\<exists>level. getUserPermissionForVault s vaultId userId = Inr level
                 \<and> required_rank required \<le> level_rank level)"
  by (cases "getUserPermissionForVault s vaultId userId") (simp_all add: holds_at_least_def)

lemma rank_write: "(required_rank Write \<le> level_rank level)
   = (level \<in> {Some Owner, Some (Granted Admin), Some (Granted Write)})"
  by (cases level rule: level_rank.cases) simp_all

lemma rank_read: "(required_rank Read \<le> level_rank level)
   = (level \<in> {Some Owner, Some (Granted Admin), Some (Granted Write), Some (Granted Read)})"
  by (cases level rule: level_rank.cases) simp_all

lemma rank_admin: "(required_rank Admin \<le> level_rank level)
   = (level \<in> {Some Owner, Some (Granted Admin)})"
  by (cases level rule: level_rank.cases) simp_all

lemma checkVaultPermission_missing_vault:
  "vaultId \<notin> vault_id ` set (vaultsTable s) \<Longrightarrow> \<not> checkVaultPermission s vaultId userId required"
  by (simp add: checkVaultPermission_def filter_key_absent)

section \<open>Hex encoding and the stored form\<close>














section \<open>Decryption of stored items, search conditions\<close>

lemma decrypt_error: "decrypt C t = Inl e \<Longrightarrow> e = CryptoError"
  by (auto simp: decrypt_def split: list.splits option.splits if_splits)

lemma decrypt_field_ok:
  "decryptable C f \<Longrightarrow> \<exists>r. decrypt_field C f = Inr r \<and> is_plaintext_of C r f"
  by (auto simp: decryptable_def decrypt_field_def is_plaintext_of_def and_then_def
      split: option.splits sum.splits if_splits)

lemma decrypt_field_fail:
  "\<not> decryptable C f \<Longrightarrow> decrypt_field C f = Inl CryptoError"
  by (auto simp: decryptable_def decrypt_field_def and_then_def
      split: option.splits sum.splits if_splits dest: decrypt_error)

lemma decrypt_item_ok:
  assumes "item_decryptable C item"
  shows "\<exists>d. decrypt_item C item = Inr d \<and> is_decrypted_item C d item"
proof -
  from assms obtain a b c d e where
    "decrypt_field C (item_password_encrypted item) = Inr a"
    "is_plaintext_of C a (item_password_encrypted item)"
    "decrypt_field C (item_notes_encrypted item) = Inr b"
    "is_plaintext_of C b (item_notes_encrypted item)"
    "decrypt_field C (item_card_number_encrypted item) = Inr c"
    "is_plaintext_of C c (item_card_number_encrypted item)"
    "decrypt_field C (item_card_cvv_encrypted item) = Inr d"
    "is_plaintext_of C d (item_card_cvv_encrypted item)"
    "decrypt_field C (item_license_key_encrypted item) = Inr e"
    "is_plaintext_of C e (item_license_key_encrypted item)"
    unfolding item_decryptable_def by (meson decrypt_field_ok)
  then show ?thesis
    by (simp add: decrypt_item_def and_then_def is_decrypted_item_def)
qed

lemma decrypt_item_fail:
  assumes "\<not> item_decryptable C item"
  shows "decrypt_item C item = Inl CryptoError"
proof -
  have step: "and_then (decrypt_field C f) k = Inl CryptoError"
    if "\<not> decryptable C f \<or> (\<forall>r. k r = Inl CryptoError)" for f and k :: "string option \<Rightarrow> error + credential_item"
  proof (cases "decryptable C f")
    case True
    then obtain r where "decrypt_field C f = Inr r" using decrypt_field_ok by blast
    with that True show ?thesis by (simp add: and_then_def)
  next
    case False
    then show ?thesis by (simp add: decrypt_field_fail and_then_def)
  qed
  show ?thesis
    unfolding decrypt_item_def using assms
    by (auto simp: item_decryptable_def intro!: step)
qed


lemma decrypt_items_ok:
  "list_all (item_decryptable C) xs
     \<Longrightarrow> \<exists>ds. decrypt_items C xs = Inr ds \<and> list_all2 (is_decrypted_item C) ds xs"
proof (induction xs)
  case Nil
  then show ?case by simp
next
  case (Cons x xs)
  then obtain d ds where "decrypt_item C x = Inr d" "is_decrypted_item C d x"
    "decrypt_items C xs = Inr ds" "list_all2 (is_decrypted_item C) ds xs"
    using decrypt_item_ok by fastforce
  then show ?case by (simp add: and_then_def)
qed

lemma decrypt_items_fail:
  "\<not> list_all (item_decryptable C) xs \<Longrightarrow> decrypt_items C xs = Inl CryptoError"
proof (induction xs)
  case Nil
  then show ?case by simp
next
  case (Cons x xs)
  show ?case
  proof (cases "item_decryptable C x")
    case True
    then obtain d where "decrypt_item C x = Inr d" using decrypt_item_ok by blast
    moreover from True Cons have "decrypt_items C xs = Inl CryptoError" by simp
    ultimately show ?thesis by (simp add: and_then_def)
  next
    case False
    then show ?thesis by (simp add: decrypt_item_fail and_then_def)
  qed
qed

lemma filter_conditions_match:
  "list_all (\<lambda>c. c i) (filter_conditions ilike input) = matches_filter ilike input i"
  by (auto simp: filter_conditions_def matches_filter_def split: option.splits)

lemma run_search_vault:
  "run_search C s ((\<lambda>i. item_vault_id i = vaultId) # filter_conditions ilike input)
     = decrypt_items C
         (filter (\<lambda>i. item_vault_id i = vaultId \<and> matches_filter ilike input i)
                 (credentialItemsTable s))"
  by (simp add: run_search_def filter_conditions_match)

section \<open>Lemmas on grants and owned vaults\<close>

lemma getUserPermissionForVault_missing:
  "vaultId \<notin> vault_id ` set (vaultsTable s)
     \<Longrightarrow> getUserPermissionForVault s vaultId userId = Inl VaultNotFound"
  by (simp add: getUserPermissionForVault_def filter_key_absent)

lemma getUserPermissionForVault_present:
  "vaultId \<in> vault_id ` set (vaultsTable s)
     \<Longrightarrow> \<exists>level. getUserPermissionForVault s vaultId userId = Inr level"
proof -
  assume "vaultId \<in> vault_id ` set (vaultsTable s)"
  then have "filter (\<lambda>v. vault_id v = vaultId) (vaultsTable s) \<noteq> []"
    by (auto simp: filter_empty_conv)
  then show ?thesis
    by (auto simp: getUserPermissionForVault_def split: list.splits)
qed



section \<open>Claims\<close>






text \<open>
  C3. The permission helper of the credential-item handlers and the one of the category
  handlers succeed exactly when the rank of the caller's effective permission, in the
  order \<open>owner > admin > write > read > none\<close>, reaches the rank of the required
  level. A check requiring write succeeds exactly for owner, admin and write; a check
  requiring read exactly for owner, admin, write and read.
\<close>

theorem checkVaultPermission_monotone:
  "(checkVaultPermission s vaultId userId required
      = (\<exists>level. getUserPermissionForVault s vaultId userId = Inr level
                  \<and> required_rank required \<le> level_rank level))
   \<and> (checkVaultPermission_categories s vaultId userId required
      = (\<exists>level. getUserPermissionForVault s vaultId userId = Inr level
                  \<and> required_rank required \<le> level_rank level))
   \<and> (checkVaultPermission s vaultId userId Write
      = (getUserPermissionForVault s vaultId userId
           \<in> {Inr (Some Owner), Inr (Some (Granted Admin)), Inr (Some (Granted Write))}))
   \<and> (checkVaultPermission_categories s vaultId userId Write
      = (getUserPermissionForVault s vaultId userId
           \<in> {Inr (Some Owner), Inr (Some (Granted Admin)), Inr (Some (Granted Write))}))
   \<and> (checkVaultPermission s vaultId userId Read
      = (getUserPermissionForVault s vaultId userId
           \<in> {Inr (Some Owner), Inr (Some (Granted Admin)), Inr (Some (Granted Write)),
               Inr (Some (Granted Read))}))
   \<and> (checkVaultPermission_categories s vaultId userId Read
      = (getUserPermissionForVault s vaultId userId
           \<in> {Inr (Some Owner), Inr (Some (Granted Admin)), Inr (Some (Granted Write)),
               Inr (Some (Granted Read))}))"
proof -
  have general: "checkVaultPermission s vaultId userId r
      = (\<exists>level. getUserPermissionForVault s vaultId userId = Inr level
                  \<and> required_rank r \<le> level_rank level)" for r
    by (simp add: checkVaultPermission_holds holds_at_least_levels)
  have w: "checkVaultPermission s vaultId userId Write
      = (getUserPermissionForVault s vaultId userId
           \<in> {Inr (Some Owner), Inr (Some (Granted Admin)), Inr (Some (Granted Write))})"
    unfolding general rank_write by (cases "getUserPermissionForVault s vaultId userId") auto
  have r: "checkVaultPermission s vaultId userId Read
      = (getUserPermissionForVault s vaultId userId
           \<in> {Inr (Some Owner), Inr (Some (Granted Admin)), Inr (Some (Granted Write)),
               Inr (Some (Granted Read))})"
    unfolding general rank_read by (cases "getUserPermissionForVault s vaultId userId") auto
  show ?thesis
    unfolding checkVaultPermission_categories_eq using general w r by blast
qed

theorem checkVaultPermission_monotone_witness:
  "checkVaultPermission sample_db 1 1 Write \<and> checkVaultPermission sample_db 1 2 Write
   \<and> \<not> checkVaultPermission sample_db 1 4 Write \<and> \<not> checkVaultPermission sample_db 1 3 Write
   \<and> checkVaultPermission_categories sample_db 1 4 Read
   \<and> \<not> checkVaultPermission_categories sample_db 1 3 Read"
proof -
  have "getUserPermissionForVault sample_db 1 1 = Inr (Some Owner)"
    and "getUserPermissionForVault sample_db 1 2 = Inr (Some (Granted Admin))"
    and "getUserPermissionForVault sample_db 1 4 = Inr (Some (Granted Read))"
    and "getUserPermissionForVault sample_db 1 3 = Inr None"
    by code_simp+
  then show ?thesis
    using checkVaultPermission_monotone[of sample_db 1 1 Write]
      checkVaultPermission_monotone[of sample_db 1 2 Write]
      checkVaultPermission_monotone[of sample_db 1 4 Write]
      checkVaultPermission_monotone[of sample_db 1 3 Write]
    by simp
qed




text \<open>
  C5, as the claim states it, fails: without a \<open>vault_id\<close> the search looks at one
  vault only. User 1 owns vaults 1 and 2; item 2 is in vault 2 and satisfies the empty
  filter, yet the search returns item 1 alone.
\<close>

theorem searchItems_second_owned_vault_counterexample:
  "si_vault_id no_filter = None
   \<and> sample_vault 2 1 \<in> set (vaultsTable sample_db)
   \<and> vault_owner_id (sample_vault 2 1) = 1
   \<and> sample_item 2 2 None None \<in> set (credentialItemsTable sample_db)
   \<and> item_vault_id (sample_item 2 2 None None) = vault_id (sample_vault 2 1)
   \<and> matches_filter sample_ilike no_filter (sample_item 2 2 None None)
   \<and> searchItems sample_crypto sample_ilike sample_db no_filter 1
       = Inr [sample_item 1 1 (Some 1) (Some ''pw'')]"
  by code_simp

text \<open>
  C5, amended. When the filter has no \<open>vault_id\<close>, the caller id and the category
  id of the filter, if it has one, are within the range of the integer columns, and the
  query, if there is one, is text to the database, the search returns the empty list if
  the caller owns no vault; otherwise it considers exactly the first vault the
  caller owns, in table order: it returns, decrypted and in table order, exactly the
  items of that vault that satisfy the category, type and title-query conditions (and
  fails with the crypto error if one of them cannot be decrypted). Grant rows are not
  consulted: the result is the same whatever the grant table holds.
\<close>

theorem searchItems_without_vault_id:
  assumes no_vault: "si_vault_id input = None"
    and user_range: "int4 userId"
    and category_range: "case si_category_id input of Some (Some c) \<Rightarrow> int4 c | _ \<Rightarrow> True"
    and query_text: "case si_query input of Some q \<Rightarrow> CHR 0x00 \<notin> set q | None \<Rightarrow> True"
  shows "(userId \<notin> vault_owner_id ` set (vaultsTable s)
            \<longrightarrow> searchItems C ilike s input userId = Inr [])
       \<and> (\<forall>vault0 others.
             filter (\<lambda>v. vault_owner_id v = userId) (vaultsTable s) = vault0 # others \<longrightarrow>
               (list_all (item_decryptable C)
                    (filter (\<lambda>i. item_vault_id i = vault_id vault0 \<and> matches_filter ilike input i)
                            (credentialItemsTable s))
                  \<longrightarrow> (\<exists>found. searchItems C ilike s input userId = Inr found
                        \<and> list_all2 (is_decrypted_item C) found
                             (filter (\<lambda>i. item_vault_id i = vault_id vault0
                                           \<and> matches_filter ilike input i)
                                     (credentialItemsTable s))))
             \<and> (\<not> list_all (item_decryptable C)
                    (filter (\<lambda>i. item_vault_id i = vault_id vault0 \<and> matches_filter ilike input i)
                            (credentialItemsTable s))
                  \<longrightarrow> searchItems C ilike s input userId = Inl CryptoError))
       \<and> searchItems C ilike (s\<lparr>vaultUserPermissionsTable := grants\<rparr>) input userId
           = searchItems C ilike s input userId"
proof (intro conjI allI impI)
  assume "userId \<notin> vault_owner_id ` set (vaultsTable s)"
  then have "filter (\<lambda>v. vault_owner_id v = userId) (vaultsTable s) = []"
    by (rule filter_key_absent)
  then show "searchItems C ilike s input userId = Inr []"
    by (simp add: searchItems_def no_vault)
next
  fix vault0 others
  assume owned: "filter (\<lambda>v. vault_owner_id v = userId) (vaultsTable s) = vault0 # others"
  let ?hits = "filter (\<lambda>i. item_vault_id i = vault_id vault0 \<and> matches_filter ilike input i)
                      (credentialItemsTable s)"
  have run: "searchItems C ilike s input userId = decrypt_items C ?hits"
    by (simp add: searchItems_def no_vault owned run_search_vault)
  {
    assume "list_all (item_decryptable C) ?hits"
    then show "\<exists>found. searchItems C ilike s input userId = Inr found
                 \<and> list_all2 (is_decrypted_item C) found ?hits"
      unfolding run by (rule decrypt_items_ok)
  }
  {
    assume "\<not> list_all (item_decryptable C) ?hits"
    then show "searchItems C ilike s input userId = Inl CryptoError"
      unfolding run by (rule decrypt_items_fail)
  }
next
  show "searchItems C ilike (s\<lparr>vaultUserPermissionsTable := grants\<rparr>) input userId
           = searchItems C ilike s input userId"
    by (simp add: searchItems_def no_vault run_search_def split: list.splits)
qed

text \<open>
  On the sample data: a caller who owns no vault, and the owner of vaults 1 and 2
  searching for category 1 with a query that is one no-break space, which \<open>trim\<close>
  empties.
\<close>

theorem searchItems_without_vault_id_witness:
  "si_vault_id no_filter = None \<and> int4 1 \<and> int4 2
   \<and> trim [CHR 0xC2, CHR 0xA0] = []
   \<and> searchItems sample_crypto sample_ilike sample_db no_filter 2 = Inr []
   \<and> (\<exists>found. searchItems sample_crypto sample_ilike sample_db
                  (no_filter\<lparr>si_category_id := Some (Some 1),
                             si_query := Some [CHR 0xC2, CHR 0xA0]\<rparr>) 1 = Inr found
        \<and> list_all2 (is_decrypted_item sample_crypto) found
             [sample_item 1 1 (Some 1) (Some ''00000000000000000000000000000000:7770'')])"
proof -
  let ?filter = "no_filter\<lparr>si_category_id := Some (Some 1),
                            si_query := Some [CHR 0xC2, CHR 0xA0]\<rparr>"
  have nv: "si_vault_id no_filter = None" and nv': "si_vault_id ?filter = None"
    by (simp_all add: no_filter_def)
  have r1: "int4 1" and r2: "int4 2"
    by (simp_all add: int4_def)
  have cr: "case si_category_id no_filter of Some (Some c) \<Rightarrow> int4 c | _ \<Rightarrow> True"
    and cr': "case si_category_id ?filter of Some (Some c) \<Rightarrow> int4 c | _ \<Rightarrow> True"
    by (simp_all add: no_filter_def int4_def)
  have qt: "case si_query no_filter of Some q \<Rightarrow> CHR 0x00 \<notin> set q | None \<Rightarrow> True"
    and qt': "case si_query ?filter of Some q \<Rightarrow> CHR 0x00 \<notin> set q | None \<Rightarrow> True"
    by (simp_all add: no_filter_def)
  have trimmed: "trim [CHR 0xC2, CHR 0xA0] = []"
    by code_simp
  have owns_none: "2 \<notin> vault_owner_id ` set (vaultsTable sample_db)"
    by (simp add: sample_db_def sample_vault_def)
  have owned: "filter (\<lambda>v. vault_owner_id v = 1) (vaultsTable sample_db)
                 = sample_vault 1 1 # [sample_vault 2 1]"
    by (simp add: sample_db_def sample_vault_def)
  have hits: "filter (\<lambda>i. item_vault_id i = vault_id (sample_vault 1 1)
                            \<and> matches_filter sample_ilike ?filter i)
                 (credentialItemsTable sample_db)
               = [sample_item 1 1 (Some 1) (Some ''00000000000000000000000000000000:7770'')]"
    by (simp add: sample_db_def sample_vault_def sample_item_def matches_filter_def no_filter_def
        trimmed)
  have ok: "list_all (item_decryptable sample_crypto)
              [sample_item 1 1 (Some 1) (Some ''00000000000000000000000000000000:7770'')]"
    by code_simp
  have a: "searchItems sample_crypto sample_ilike sample_db no_filter 2 = Inr []"
    by (rule searchItems_without_vault_id[OF nv r2 cr qt, where s = sample_db,
          THEN conjunct1, THEN mp, OF owns_none])
  have b: "\<exists>found. searchItems sample_crypto sample_ilike sample_db ?filter 1 = Inr found
        \<and> list_all2 (is_decrypted_item sample_crypto) found
             [sample_item 1 1 (Some 1) (Some ''00000000000000000000000000000000:7770'')]"
    using searchItems_without_vault_id[OF nv' r1 cr' qt', where s = sample_db
            and C = sample_crypto and ilike = sample_ilike,
            THEN conjunct2, THEN conjunct1, THEN spec, THEN spec, THEN mp, OF owned,
            THEN conjunct1] ok
    unfolding hits by (rule mp)
  from nv r1 r2 trimmed a b show ?thesis by (intro conjI)
qed

text \<open>
  C6, as the claim states it, fails: for a vault id that no vault has, the caller's
  permission is neither admin nor owner, yet the error is the vault-not-found error of
  \<open>getUserPermissionForVault\<close>, not the insufficient-permissions error.
\<close>

theorem createVaultPermission_missing_vault_counterexample:
  "getUserPermissionForVault sample_db 7 1 \<noteq> Inr (Some (Granted Admin))
   \<and> getUserPermissionForVault sample_db 7 1 \<noteq> Inr (Some Owner)
   \<and> createVaultPermission 9 sample_db
        \<lparr>cvp_vault_id = 7, cvp_user_id = 2, cvp_permission = Read\<rparr> 1
       = (Inl VaultNotFound, sample_db)"
  by code_simp

text \<open>
  C6, amended. For a vault id, a target user id and a caller id within the range of the
  integer columns, \<open>createVaultPermission\<close> fails with the vault-not-found error when no
  vault has \<open>input.vault_id\<close>; otherwise with the insufficient-permissions error
  unless the caller's effective permission on the vault is admin or owner; then with
  the target-user-not-found error if no user has \<open>input.user_id\<close>; then with the
  target-inactive error if that user is deactivated; then with the duplicate-grant
  error if a grant row for the pair exists; every failure leaves the store unchanged.
  Otherwise it appends exactly one grant row, with the requested permission and
  \<open>granted_by\<close> the caller, and returns that row. The user id is the primary key of
  its table.
\<close>

theorem createVaultPermission_spec:
  assumes pk: "distinct (map user_id (usersTable s))"
    and vault_range: "int4 (cvp_vault_id input)"
    and target_range: "int4 (cvp_user_id input)"
    and caller_range: "int4 caller"
  shows "(cvp_vault_id input \<notin> vault_id ` set (vaultsTable s)
            \<longrightarrow> createVaultPermission now s input caller = (Inl VaultNotFound, s))
       \<and> (cvp_vault_id input \<in> vault_id ` set (vaultsTable s) \<longrightarrow>
            (getUserPermissionForVault s (cvp_vault_id input) caller
                 \<notin> {Inr (Some (Granted Admin)), Inr (Some Owner)}
               \<longrightarrow> createVaultPermission now s input caller = (Inl InsufficientPermissions, s))
          \<and> (getUserPermissionForVault s (cvp_vault_id input) caller
                 \<in> {Inr (Some (Granted Admin)), Inr (Some Owner)} \<longrightarrow>
               (cvp_user_id input \<notin> user_id ` set (usersTable s)
                  \<longrightarrow> createVaultPermission now s input caller = (Inl TargetUserNotFound, s))
             \<and> (\<forall>target \<in> set (usersTable s). user_id target = cvp_user_id input \<longrightarrow>
                  (\<not> user_is_active target
                     \<longrightarrow> createVaultPermission now s input caller = (Inl TargetUserInactive, s))
                \<and> (user_is_active target \<longrightarrow>
                     ((\<exists>p \<in> set (vaultUserPermissionsTable s).
                          perm_vault_id p = cvp_vault_id input \<and> perm_user_id p = cvp_user_id input)
                        \<longrightarrow> createVaultPermission now s input caller = (Inl DuplicatePermission, s))
                   \<and> (\<not> (\<exists>p \<in> set (vaultUserPermissionsTable s).
                          perm_vault_id p = cvp_vault_id input \<and> perm_user_id p = cvp_user_id input)
                        \<longrightarrow> (\<exists>row. createVaultPermission now s input caller
                                     = (Inr row,
                                        s\<lparr>vaultUserPermissionsTable :=
                                             vaultUserPermissionsTable s @ [row],
                                          vault_user_permissions_id_seq :=
                                             vault_user_permissions_id_seq s + 1\<rparr>)
                                 \<and> perm_vault_id row = cvp_vault_id input
                                 \<and> perm_user_id row = cvp_user_id input
                                 \<and> perm_permission row = cvp_permission input
                                 \<and> perm_granted_by row = caller))))))"
proof (intro conjI impI ballI)
  assume "cvp_vault_id input \<notin> vault_id ` set (vaultsTable s)"
  then show "createVaultPermission now s input caller = (Inl VaultNotFound, s)"
    by (simp add: createVaultPermission_def getUserPermissionForVault_missing)
next
  assume "cvp_vault_id input \<in> vault_id ` set (vaultsTable s)"
  then obtain level where level: "getUserPermissionForVault s (cvp_vault_id input) caller = Inr level"
    using getUserPermissionForVault_present by blast
  {
    assume "getUserPermissionForVault s (cvp_vault_id input) caller
              \<notin> {Inr (Some (Granted Admin)), Inr (Some Owner)}"
    then show "createVaultPermission now s input caller = (Inl InsufficientPermissions, s)"
      by (simp add: createVaultPermission_def level)
  }
  assume "getUserPermissionForVault s (cvp_vault_id input) caller
              \<in> {Inr (Some (Granted Admin)), Inr (Some Owner)}"
  then have allowed: "\<not> (level \<noteq> Some (Granted Admin) \<and> level \<noteq> Some Owner)"
    by (auto simp: level)
  {
    assume "cvp_user_id input \<notin> user_id ` set (usersTable s)"
    then have "filter (\<lambda>u. user_id u = cvp_user_id input) (usersTable s) = []"
      by (rule filter_key_absent)
    then show "createVaultPermission now s input caller = (Inl TargetUserNotFound, s)"
      using allowed by (simp add: createVaultPermission_def level)
  }
  fix target assume target: "target \<in> set (usersTable s)" "user_id target = cvp_user_id input"
  have found: "filter (\<lambda>u. user_id u = cvp_user_id input) (usersTable s) = [target]"
    using filter_key_unique[OF pk target(1)] target(2) by simp
  {
    assume "\<not> user_is_active target"
    then show "createVaultPermission now s input caller = (Inl TargetUserInactive, s)"
      using allowed by (simp add: createVaultPermission_def level found)
  }
  assume active: "user_is_active target"
  let ?existing = "filter (\<lambda>p. perm_vault_id p = cvp_vault_id input
                               \<and> perm_user_id p = cvp_user_id input)
                          (vaultUserPermissionsTable s)"
  {
    assume "\<exists>p \<in> set (vaultUserPermissionsTable s).
               perm_vault_id p = cvp_vault_id input \<and> perm_user_id p = cvp_user_id input"
    then have "?existing \<noteq> []"
      by (simp add: filter_empty_conv)
    then show "createVaultPermission now s input caller = (Inl DuplicatePermission, s)"
      using allowed active by (simp add: createVaultPermission_def level found)
  }
  {
    assume "\<not> (\<exists>p \<in> set (vaultUserPermissionsTable s).
               perm_vault_id p = cvp_vault_id input \<and> perm_user_id p = cvp_user_id input)"
    then have "?existing = []"
      by (simp add: filter_empty_conv)
    then show "\<exists>row. createVaultPermission now s input caller
                   = (Inr row,
                      s\<lparr>vaultUserPermissionsTable := vaultUserPermissionsTable s @ [row],
                        vault_user_permissions_id_seq := vault_user_permissions_id_seq s + 1\<rparr>)
               \<and> perm_vault_id row = cvp_vault_id input
               \<and> perm_user_id row = cvp_user_id input
               \<and> perm_permission row = cvp_permission input
               \<and> perm_granted_by row = caller"
      using allowed active by (simp add: createVaultPermission_def level found Let_def)
  }
qed

theorem createVaultPermission_spec_witness:
  "distinct (map user_id (usersTable sample_db))
   \<and> int4 1 \<and> int4 2 \<and> int4 5
   \<and> fst (createVaultPermission 9 sample_db
            \<lparr>cvp_vault_id = 1, cvp_user_id = 5, cvp_permission = Write\<rparr> 4)
       = Inl InsufficientPermissions
   \<and> fst (createVaultPermission 9 sample_db
            \<lparr>cvp_vault_id = 1, cvp_user_id = 8, cvp_permission = Write\<rparr> 2)
       = Inl TargetUserNotFound
   \<and> fst (createVaultPermission 9 sample_db
            \<lparr>cvp_vault_id = 1, cvp_user_id = 3, cvp_permission = Write\<rparr> 1)
       = Inl TargetUserInactive
   \<and> fst (createVaultPermission 9 sample_db
            \<lparr>cvp_vault_id = 1, cvp_user_id = 4, cvp_permission = Write\<rparr> 1)
       = Inl DuplicatePermission
   \<and> (\<exists>row. createVaultPermission 9 sample_db
                \<lparr>cvp_vault_id = 1, cvp_user_id = 5, cvp_permission = Write\<rparr> 2
              = (Inr row,
                 sample_db\<lparr>vaultUserPermissionsTable :=
                              vaultUserPermissionsTable sample_db @ [row],
                           vault_user_permissions_id_seq :=
                              vault_user_permissions_id_seq sample_db + 1\<rparr>)
            \<and> perm_vault_id row = 1 \<and> perm_user_id row = 5
            \<and> perm_permission row = Write \<and> perm_granted_by row = 2)"
proof -
  let ?input = "\<lparr>cvp_vault_id = 1, cvp_user_id = 5, cvp_permission = Write\<rparr>"
  have pk: "distinct (map user_id (usersTable sample_db))"
    by code_simp
  have present: "cvp_vault_id ?input \<in> vault_id ` set (vaultsTable sample_db)"
    by (simp add: sample_db_def sample_vault_def)
  have r1: "int4 1" and r2: "int4 2" and r5: "int4 5"
    by (simp_all add: int4_def)
  have ranges: "int4 (cvp_vault_id ?input)" "int4 (cvp_user_id ?input)"
    by (simp_all add: int4_def)
  have allowed: "getUserPermissionForVault sample_db (cvp_vault_id ?input) 2
                   \<in> {Inr (Some (Granted Admin)), Inr (Some Owner)}"
    by code_simp
  have target: "sample_user 5 True \<in> set (usersTable sample_db)"
    "user_id (sample_user 5 True) = cvp_user_id ?input"
    by (simp_all add: sample_db_def sample_user_def)
  have active: "user_is_active (sample_user 5 True)"
    by (simp add: sample_user_def)
  have fresh: "\<not> (\<exists>p \<in> set (vaultUserPermissionsTable sample_db).
                  perm_vault_id p = cvp_vault_id ?input \<and> perm_user_id p = cvp_user_id ?input)"
    by (simp add: sample_db_def sample_grant_def)
  have failures:
    "fst (createVaultPermission 9 sample_db
            \<lparr>cvp_vault_id = 1, cvp_user_id = 5, cvp_permission = Write\<rparr> 4)
       = Inl InsufficientPermissions"
    "fst (createVaultPermission 9 sample_db
            \<lparr>cvp_vault_id = 1, cvp_user_id = 8, cvp_permission = Write\<rparr> 2)
       = Inl TargetUserNotFound"
    "fst (createVaultPermission 9 sample_db
            \<lparr>cvp_vault_id = 1, cvp_user_id = 3, cvp_permission = Write\<rparr> 1)
       = Inl TargetUserInactive"
    "fst (createVaultPermission 9 sample_db
            \<lparr>cvp_vault_id = 1, cvp_user_id = 4, cvp_permission = Write\<rparr> 1)
       = Inl DuplicatePermission"
    by code_simp+
  have inserted: "\<exists>row. createVaultPermission 9 sample_db ?input 2
              = (Inr row,
                 sample_db\<lparr>vaultUserPermissionsTable :=
                              vaultUserPermissionsTable sample_db @ [row],
                           vault_user_permissions_id_seq :=
                              vault_user_permissions_id_seq sample_db + 1\<rparr>)
            \<and> perm_vault_id row = cvp_vault_id ?input \<and> perm_user_id row = cvp_user_id ?input
            \<and> perm_permission row = cvp_permission ?input \<and> perm_granted_by row = 2"
    by (rule createVaultPermission_spec[OF pk ranges r2, where now = 9, THEN conjunct2,
          THEN mp, OF present,
          THEN conjunct2, THEN mp, OF allowed, THEN conjunct2, THEN bspec, OF target(1),
          THEN mp, OF target(2), THEN conjunct2, THEN mp, OF active, THEN conjunct2,
          THEN mp, OF fresh])
  then have inserted': "\<exists>row. createVaultPermission 9 sample_db ?input 2
              = (Inr row,
                 sample_db\<lparr>vaultUserPermissionsTable :=
                              vaultUserPermissionsTable sample_db @ [row],
                           vault_user_permissions_id_seq :=
                              vault_user_permissions_id_seq sample_db + 1\<rparr>)
            \<and> perm_vault_id row = 1 \<and> perm_user_id row = 5
            \<and> perm_permission row = Write \<and> perm_granted_by row = 2"
    by simp
  from pk r1 r2 r5 failures inserted' show ?thesis by (intro conjI)
qed




text \<open>
  C8. When \<open>deleteCategory\<close> succeeds, the category existed and the caller holds
  write or better on its vault; every credential item is still there, in place: an item
  that referred to the category has \<open>category_id\<close> null and every other field as
  before, any other item is untouched; the category row is removed, and only it.
\<close>

theorem deleteCategory_orphans_items:
  assumes ok: "deleteCategory s id0 userId = (Inr r, s')"
  shows "(\<exists>c \<in> set (categoriesTable s). cat_id c = id0
            \<and> holds_at_least s (cat_vault_id c) userId Write)
       \<and> length (credentialItemsTable s') = length (credentialItemsTable s)
       \<and> (\<forall>k < length (credentialItemsTable s).
             (item_category_id (credentialItemsTable s ! k) = Some id0
                \<longrightarrow> credentialItemsTable s' ! k
                      = (credentialItemsTable s ! k)\<lparr>item_category_id := None\<rparr>)
           \<and> (item_category_id (credentialItemsTable s ! k) \<noteq> Some id0
                \<longrightarrow> credentialItemsTable s' ! k = credentialItemsTable s ! k))
       \<and> (\<forall>c \<in> set (categoriesTable s'). cat_id c \<noteq> id0)
       \<and> set (categoriesTable s') = {c \<in> set (categoriesTable s). cat_id c \<noteq> id0}
       \<and> vaultsTable s' = vaultsTable s
       \<and> vaultUserPermissionsTable s' = vaultUserPermissionsTable s
       \<and> usersTable s' = usersTable s"
proof -
  let ?found = "filter (\<lambda>c. cat_id c = id0) (categoriesTable s)"
  from ok obtain category0 rest where found: "?found = category0 # rest"
    by (cases ?found) (simp_all add: deleteCategory_def)
  have c0: "category0 \<in> set (categoriesTable s)" "cat_id category0 = id0"
    using found by (metis (mono_tags, lifting) list.set_intros(1) mem_Collect_eq set_filter)+
  from ok found have permitted: "checkVaultPermission_categories s (cat_vault_id category0) userId Write"
    by (simp add: deleteCategory_def split: if_splits)
  from ok found permitted have s': "s' = s\<lparr>credentialItemsTable :=
                  map (\<lambda>i. if item_category_id i = Some id0 then i\<lparr>item_category_id := None\<rparr> else i)
                      (credentialItemsTable s),
               categoriesTable := filter (\<lambda>c. cat_id c \<noteq> id0) (categoriesTable s)\<rparr>"
    by (simp add: deleteCategory_def)
  have "holds_at_least s (cat_vault_id category0) userId Write"
    using permitted by (simp add: checkVaultPermission_categories_eq checkVaultPermission_holds)
  with c0 have first: "\<exists>c \<in> set (categoriesTable s). cat_id c = id0
            \<and> holds_at_least s (cat_vault_id c) userId Write"
    by blast
  show ?thesis
    using first by (simp add: s')
qed

theorem deleteCategory_orphans_items_witness:
  "fst (deleteCategory sample_db 1 2) = Inr True
   \<and> credentialItemsTable (snd (deleteCategory sample_db 1 2))
       = [sample_item 1 1 None (Some ''00000000000000000000000000000000:7770''),
          sample_item 2 2 None None]
   \<and> categoriesTable (snd (deleteCategory sample_db 1 2)) = []
   \<and> holds_at_least sample_db 1 2 Write"
proof -
  have ok: "fst (deleteCategory sample_db 1 2) = Inr True"
    by code_simp
  have run: "deleteCategory sample_db 1 2 = (Inr True, snd (deleteCategory sample_db 1 2))"
    by (rule prod_eqI) (simp_all only: ok fst_conv snd_conv)
  have items: "credentialItemsTable (snd (deleteCategory sample_db 1 2))
       = [sample_item 1 1 None (Some ''00000000000000000000000000000000:7770''),
          sample_item 2 2 None None]"
    by code_simp
  have cats: "categoriesTable (snd (deleteCategory sample_db 1 2)) = []"
    by code_simp
  have holds: "holds_at_least sample_db 1 2 Write"
    by code_simp
  from deleteCategory_orphans_items[OF run] ok items cats holds
  show ?thesis by (intro conjI)
qed

text \<open>
  C9, as the claim states it, fails: when no credential item has the id,
  \<open>getItemById\<close> returns \<open>null\<close>; it does not fail.
\<close>

theorem getItemById_missing_counterexample:
  "credentialItemsTable empty_db = [] \<and> getItemById sample_crypto empty_db 1 1 = Inr None"
  by code_simp

text \<open>
  C9, amended. For an item id within the range of the integer column,
  \<open>getItemById\<close> returns \<open>null\<close> when no credential item has the id.
  When the item exists, the call fails with the insufficient-permissions error unless
  the caller holds read or better on the item's vault; with read or better it returns
  the item with each stored sensitive field replaced by its decrypted plaintext (and
  fails with the crypto error if a stored field cannot be decrypted). The item id is
  the primary key of its table.
\<close>

theorem getItemById_spec:
  assumes pk: "distinct (map item_id (credentialItemsTable s))"
    and id_range: "int4 id0"
  shows "(id0 \<notin> item_id ` set (credentialItemsTable s) \<longrightarrow> getItemById C s id0 userId = Inr None)
       \<and> (\<forall>item \<in> set (credentialItemsTable s). item_id item = id0 \<longrightarrow>
            (\<not> holds_at_least s (item_vault_id item) userId Read
               \<longrightarrow> getItemById C s id0 userId = Inl InsufficientPermissions)
          \<and> (holds_at_least s (item_vault_id item) userId Read \<and> item_decryptable C item
               \<longrightarrow> (\<exists>d. getItemById C s id0 userId = Inr (Some d) \<and> is_decrypted_item C d item))
          \<and> (holds_at_least s (item_vault_id item) userId Read \<and> \<not> item_decryptable C item
               \<longrightarrow> getItemById C s id0 userId = Inl CryptoError))"
proof (intro conjI impI ballI)
  assume "id0 \<notin> item_id ` set (credentialItemsTable s)"
  then have "filter (\<lambda>i. item_id i = id0) (credentialItemsTable s) = []"
    by (rule filter_key_absent)
  then show "getItemById C s id0 userId = Inr None"
    by (simp add: getItemById_def)
next
  fix item assume item: "item \<in> set (credentialItemsTable s)" "item_id item = id0"
  have found: "filter (\<lambda>i. item_id i = id0) (credentialItemsTable s) = [item]"
    using filter_key_unique[OF pk item(1)] item(2) by simp
  {
    assume "\<not> holds_at_least s (item_vault_id item) userId Read"
    then show "getItemById C s id0 userId = Inl InsufficientPermissions"
      by (simp add: getItemById_def found checkVaultPermission_holds)
  }
  {
    assume "holds_at_least s (item_vault_id item) userId Read \<and> item_decryptable C item"
    then have h: "holds_at_least s (item_vault_id item) userId Read"
      and "item_decryptable C item" by blast+
    then obtain d where "decrypt_item C item = Inr d" "is_decrypted_item C d item"
      using decrypt_item_ok by blast
    with h show "\<exists>d. getItemById C s id0 userId = Inr (Some d) \<and> is_decrypted_item C d item"
      by (simp add: getItemById_def found checkVaultPermission_holds and_then_def)
  }
  {
    assume "holds_at_least s (item_vault_id item) userId Read \<and> \<not> item_decryptable C item"
    then show "getItemById C s id0 userId = Inl CryptoError"
      by (simp add: getItemById_def found checkVaultPermission_holds and_then_def
          decrypt_item_fail)
  }
qed

theorem getItemById_spec_witness:
  "distinct (map item_id (credentialItemsTable sample_db))
   \<and> int4 1 \<and> int4 9
   \<and> getItemById sample_crypto sample_db 9 1 = Inr None
   \<and> getItemById sample_crypto sample_db 1 3 = Inl InsufficientPermissions
   \<and> getItemById sample_crypto sample_db 1 4 = Inr (Some (sample_item 1 1 (Some 1) (Some ''pw'')))"
proof -
  have pk: "distinct (map item_id (credentialItemsTable sample_db))"
    by code_simp
  have absent: "9 \<notin> item_id ` set (credentialItemsTable sample_db)"
    by (simp add: sample_db_def sample_item_def)
  let ?item = "sample_item 1 1 (Some 1) (Some ''00000000000000000000000000000000:7770'')"
  have item: "?item \<in> set (credentialItemsTable sample_db)" "item_id ?item = 1"
    by (simp_all add: sample_db_def sample_item_def)
  have no3: "\<not> holds_at_least sample_db (item_vault_id ?item) 3 Read"
    by code_simp
  have r1: "int4 1" and r9: "int4 9"
    by (simp_all add: int4_def)
  have a: "getItemById sample_crypto sample_db 9 1 = Inr None"
    by (rule getItemById_spec[OF pk r9, of sample_crypto 1, THEN conjunct1, THEN mp, OF absent])
  have b: "getItemById sample_crypto sample_db 1 3 = Inl InsufficientPermissions"
    by (rule getItemById_spec[OF pk r1, of sample_crypto 3, THEN conjunct2, THEN bspec, OF item(1),
          THEN mp, OF item(2), THEN conjunct1, THEN mp, OF no3])
  have c: "getItemById sample_crypto sample_db 1 4
             = Inr (Some (sample_item 1 1 (Some 1) (Some ''pw'')))"
    by code_simp
  from pk r1 r9 a b c show ?thesis by (intro conjI)
qed

text \<open>
  C10. When no vault has the given vault id, both permission helpers answer \<open>false\<close>
  for every required level, so every credential-item and category operation that takes
  a vault id (\<open>createCredentialItem\<close>, \<open>getItemsByVault\<close>, \<open>searchItems\<close> with a
  \<open>vault_id\<close>, \<open>createCategory\<close>, \<open>getCategoriesByVault\<close>) fails with the
  insufficient-permissions error, not with a vault-not-found error, and writes nothing.
\<close>

theorem missing_vault_insufficient_permissions:
  assumes "vaultId \<notin> vault_id ` set (vaultsTable s)"
  shows "\<not> checkVaultPermission s vaultId userId required
       \<and> \<not> checkVaultPermission_categories s vaultId userId required
       \<and> createCredentialItem C ivs now s (item_input\<lparr>cci_vault_id := vaultId\<rparr>) userId
           = (Inl InsufficientPermissions, s)
       \<and> getItemsByVault C s vaultId userId = Inl InsufficientPermissions
       \<and> searchItems C ilike s (search_input\<lparr>si_vault_id := Some vaultId\<rparr>) userId
           = Inl InsufficientPermissions
       \<and> createCategory now s (category_input\<lparr>cc_vault_id := vaultId\<rparr>) userId
           = (Inl InsufficientPermissions, s)
       \<and> getCategoriesByVault order_by_name s vaultId userId = Inl InsufficientPermissions"
proof -
  have no: "\<not> checkVaultPermission s vaultId userId r" for r
    using assms by (rule checkVaultPermission_missing_vault)
  show ?thesis
    by (simp add: no checkVaultPermission_categories_eq createCredentialItem_def
        getItemsByVault_def searchItems_def createCategory_def getCategoriesByVault_def)
qed

theorem missing_vault_insufficient_permissions_witness:
  "7 \<notin> vault_id ` set (vaultsTable sample_db)
   \<and> fst (createCredentialItem sample_crypto
            \<lparr>iv_password = sample_iv (CHR 0x01), iv_notes = sample_iv (CHR 0x02),
             iv_card_number = sample_iv (CHR 0x03), iv_card_cvv = sample_iv (CHR 0x04),
             iv_license_key = sample_iv (CHR 0x05)\<rparr>
            9 sample_db
            \<lparr>cci_title = ''Mail'', cci_type = Password, cci_vault_id = 7, cci_category_id = None,
             cci_website_url = None, cci_username = None, cci_password = Some ''pw'',
             cci_notes = None, cci_card_number = None, cci_card_holder_name = None,
             cci_card_expiry_date = None, cci_card_cvv = None, cci_license_key = None,
             cci_license_email = None\<rparr> 1) = Inl InsufficientPermissions
   \<and> fst (createCategory 9 sample_db
            \<lparr>cc_name = ''Home'', cc_description = None, cc_color = None, cc_vault_id = 7\<rparr> 1)
       = Inl InsufficientPermissions"
proof -
  have absent: "7 \<notin> vault_id ` set (vaultsTable sample_db)"
    by (simp add: sample_db_def sample_vault_def)
  show ?thesis
    using absent
      missing_vault_insufficient_permissions[OF absent, of 1 Write sample_crypto
        "\<lparr>iv_password = sample_iv (CHR 0x01), iv_notes = sample_iv (CHR 0x02),
             iv_card_number = sample_iv (CHR 0x03), iv_card_cvv = sample_iv (CHR 0x04),
             iv_license_key = sample_iv (CHR 0x05)\<rparr>" 9
        "\<lparr>cci_title = ''Mail'', cci_type = Password, cci_vault_id = 7, cci_category_id = None,
             cci_website_url = None, cci_username = None, cci_password = Some ''pw'',
             cci_notes = None, cci_card_number = None, cci_card_holder_name = None,
             cci_card_expiry_date = None, cci_card_cvv = None, cci_license_key = None,
             cci_license_email = None\<rparr>" _ _
        "\<lparr>cc_name = ''Home'', cc_description = None, cc_color = None, cc_vault_id = 7\<rparr>"]
    by simp
qed

end
